theory Spec2Isabelle
  imports Main
begin

section \<open>asmdec: register-width arithmetic, embedded from \<^verbatim>\<open>asmdec/asmdec.py\<close>\<close>

text \<open>
  The module is one stateless class, \<^verbatim>\<open>AsmDec\<close>: a width resolver (\<^verbatim>\<open>_get_size\<close>), two
  operand normalisers (\<^verbatim>\<open>_parse1\<close>, \<^verbatim>\<open>_parse2\<close>), \<^verbatim>\<open>FORMAT\<close>, \<^verbatim>\<open>HIGHBYTE\<close> and thirteen
  operations. Every method is a pure function of its arguments, so each becomes a HOL
  function of the same name (\<^verbatim>\<open>_get_size\<close> is \<open>get_size\<close>, since an Isabelle name cannot
  start with an underscore).

  Python's integers are unbounded and are modelled by \<open>int\<close>; the bitwise operators of
  Python act on the infinite two's complement representation, as \<open>and\<close>, \<open>or\<close>, \<open>xor\<close>
  and \<open>not\<close> of HOL do on \<open>int\<close>; \<^verbatim>\<open>a << n\<close>, where it returns, is \<open>push_bit n a\<close> and \<^verbatim>\<open>a >> n\<close> is
  \<open>drop_bit n a\<close> (rounding towards minus infinity, as Python does). The bitwise infix
  notation of HOL is left switched off, so that the operations keep the capitalised names
  they have in the source.

  One operator depends on the machine. A shift to the left by a huge count asks for an
  integer that the interpreter has no memory for, and \<^verbatim>\<open>1 << 0xFFFFFFFFFFFFFFFF\<close> raises
  \<^verbatim>\<open>MemoryError\<close>. Where that begins is not in the source: it is the parameter \<open>mem\<close> of
  the shift and of the four methods that shift to the left.
\<close>

subsection \<open>Python values and exceptions\<close>

text \<open>
  The values that the methods handle: an integer, a byte string (the \<^verbatim>\<open>str\<close> of the
  Python 2 the module is written for) and \<^verbatim>\<open>None\<close>, which \<^verbatim>\<open>_get_size\<close> returns by falling
  off its end. An exception is the left summand of the result.
\<close>

datatype pyval = PInt int | PStr string | PNone

datatype py_error = TypeError | ValueError | IndexError | MemoryError

definition bind :: "py_error + 'a \<Rightarrow> ('a \<Rightarrow> py_error + 'b) \<Rightarrow> py_error + 'b" where
  "bind m f = (case m of Inl e \<Rightarrow> Inl e | Inr x \<Rightarrow> f x)"

text \<open>\<^verbatim>\<open>s[i]\<close> on a string, for the constant indices 0 and 1 that the module uses.\<close>

definition py_getitem :: "string \<Rightarrow> nat \<Rightarrow> py_error + string" where
  "py_getitem s i = (if i < length s then Inr [s ! i] else Inl IndexError)"

text \<open>
  The operators. Each is defined on two integers; \<^verbatim>\<open>+\<close> also concatenates two strings.
  Every other combination of the three kinds of value raises \<^verbatim>\<open>TypeError\<close>. A shift by a
  negative count raises \<^verbatim>\<open>ValueError\<close>.

  A shift to the left of a number other than 0 builds a longer number, and raises
  \<^verbatim>\<open>MemoryError\<close> when the count is beyond what the interpreter can allocate. That bound
  is \<open>shift_limit mem\<close>, where \<open>mem\<close> is the count that the machine at hand has room for;
  no machine is taken to have room for less than 64, the widest register. 0 shifted by
  any count that is not negative is 0, and a shift to the right builds nothing longer.
\<close>

definition shift_limit :: "nat \<Rightarrow> nat" where
  "shift_limit mem = max 64 mem"

fun py_and :: "pyval \<Rightarrow> pyval \<Rightarrow> py_error + pyval" where
  "py_and (PInt a) (PInt b) = Inr (PInt (and a b))"
| "py_and _ _ = Inl TypeError"

fun py_or :: "pyval \<Rightarrow> pyval \<Rightarrow> py_error + pyval" where
  "py_or (PInt a) (PInt b) = Inr (PInt (or a b))"
| "py_or _ _ = Inl TypeError"

fun py_xor :: "pyval \<Rightarrow> pyval \<Rightarrow> py_error + pyval" where
  "py_xor (PInt a) (PInt b) = Inr (PInt (xor a b))"
| "py_xor _ _ = Inl TypeError"

fun py_lshift :: "nat \<Rightarrow> pyval \<Rightarrow> pyval \<Rightarrow> py_error + pyval" where
  "py_lshift mem (PInt a) (PInt n) =
     (if n < 0 then Inl ValueError
      else if a = 0 then Inr (PInt 0)
      else if int (shift_limit mem) < n then Inl MemoryError
      else Inr (PInt (push_bit (nat n) a)))"
| "py_lshift mem _ _ = Inl TypeError"

fun py_rshift :: "pyval \<Rightarrow> pyval \<Rightarrow> py_error + pyval" where
  "py_rshift (PInt a) (PInt n) =
     (if n < 0 then Inl ValueError else Inr (PInt (drop_bit (nat n) a)))"
| "py_rshift _ _ = Inl TypeError"

fun py_add :: "pyval \<Rightarrow> pyval \<Rightarrow> py_error + pyval" where
  "py_add (PInt a) (PInt b) = Inr (PInt (a + b))"
| "py_add (PStr s) (PStr t) = Inr (PStr (s @ t))"
| "py_add _ _ = Inl TypeError"

fun py_sub :: "pyval \<Rightarrow> pyval \<Rightarrow> py_error + pyval" where
  "py_sub (PInt a) (PInt b) = Inr (PInt (a - b))"
| "py_sub _ _ = Inl TypeError"

fun py_invert :: "pyval \<Rightarrow> py_error + pyval" where
  "py_invert (PInt a) = Inr (PInt (not a))"
| "py_invert _ = Inl TypeError"

text \<open>
  \<^verbatim>\<open>int(value.encode("hex"), 16)\<close>: the bytes of the string read as one big-endian number.
  The hex encoding of the empty string is empty, and \<^verbatim>\<open>int('', 16)\<close> raises \<^verbatim>\<open>ValueError\<close>.
\<close>

definition str_to_int :: "string \<Rightarrow> py_error + pyval" where
  "str_to_int s =
     (if s = [] then Inl ValueError
      else Inr (PInt (foldl (\<lambda>acc c. acc * 256 + of_char c) 0 s)))"

subsection \<open>The width resolver and the operand normalisers\<close>

definition get_size :: "pyval \<Rightarrow> string \<Rightarrow> py_error + pyval" where
  "get_size value0 sz =
     bind (case value0 of PStr s \<Rightarrow> str_to_int s | _ \<Rightarrow> Inr value0) (\<lambda>value.
       if sz = ''l'' then py_and value (PInt 0xFF)
       else if sz = ''h'' then
         bind (py_and value (PInt 0xFF00)) (\<lambda>t. py_rshift t (PInt 8))
       else if sz = ''w'' then py_and value (PInt 0xFFFF)
       else if sz = ''d'' then py_and value (PInt 0xFFFFFFFF)
       else if sz = ''q'' then py_and value (PInt 0xFFFFFFFFFFFFFFFF)
       else Inr PNone)"

definition parse1 :: "pyval \<Rightarrow> string \<Rightarrow> py_error + pyval" where
  "parse1 op1 sz =
     bind (py_getitem sz 0) (\<lambda>size_op1. get_size op1 size_op1)"

definition parse2 :: "pyval \<Rightarrow> pyval \<Rightarrow> string \<Rightarrow> py_error + pyval \<times> pyval" where
  "parse2 op1 op2 sz =
     bind (py_getitem sz 0) (\<lambda>size_op1.
     bind (py_getitem sz 1) (\<lambda>size_op2.
     bind (get_size op1 size_op1) (\<lambda>temp_op1.
     bind (get_size op2 size_op2) (\<lambda>temp_op2.
     Inr (temp_op1, temp_op2)))))"

definition FORMAT :: "pyval \<Rightarrow> string \<Rightarrow> py_error + pyval" where
  "FORMAT op1 sz =
     bind (py_getitem sz 0) (\<lambda>size_op1. get_size op1 size_op1)"

definition HIGHBYTE :: "nat \<Rightarrow> pyval \<Rightarrow> py_error + pyval" where
  "HIGHBYTE mem v = py_lshift mem v (PInt 8)"

subsection \<open>The operations\<close>

text \<open>
  The width specifier \<open>sz\<close> (the source's \<^verbatim>\<open>size\<close>, a name HOL has taken) is passed
  explicitly; where the source leaves it out it is \<^verbatim>\<open>"dd"\<close>. \<^verbatim>\<open>HIGHBYTE\<close>, \<^verbatim>\<open>ROL\<close>, \<^verbatim>\<open>ROR\<close> and
  \<^verbatim>\<open>SHL\<close>, which shift to the left, come first with \<open>mem\<close>. Every operation ends in
  \<^verbatim>\<open>self._get_size(temp, size[0])\<close>, which is \<open>result_size\<close>. The arguments of a call are
  evaluated from left to right, so the arithmetic comes before that \<^verbatim>\<open>size[0]\<close>.
\<close>

definition result_size :: "string \<Rightarrow> pyval \<Rightarrow> py_error + pyval" where
  "result_size sz temp = bind (py_getitem sz 0) (\<lambda>t. get_size temp t)"

definition XOR :: "pyval \<Rightarrow> pyval \<Rightarrow> string \<Rightarrow> py_error + pyval" where
  "XOR op1 op2 sz =
     bind (parse2 op1 op2 sz) (\<lambda>(op1, op2).
     bind (py_xor op1 op2) (result_size sz))"

definition OR :: "pyval \<Rightarrow> pyval \<Rightarrow> string \<Rightarrow> py_error + pyval" where
  "OR op1 op2 sz =
     bind (parse2 op1 op2 sz) (\<lambda>(op1, op2).
     bind (py_or op1 op2) (result_size sz))"

definition AND :: "pyval \<Rightarrow> pyval \<Rightarrow> string \<Rightarrow> py_error + pyval" where
  "AND op1 op2 sz =
     bind (parse2 op1 op2 sz) (\<lambda>(op1, op2).
     bind (py_and op1 op2) (result_size sz))"

definition ROL :: "nat \<Rightarrow> pyval \<Rightarrow> pyval \<Rightarrow> string \<Rightarrow> py_error + pyval" where
  "ROL mem op1 op2 sz =
     bind (parse2 op1 op2 sz) (\<lambda>(op1, op2).
     bind (py_lshift mem op1 op2) (\<lambda>left.
     bind (py_sub (PInt 8) op2) (\<lambda>n.
     bind (py_rshift op1 n) (\<lambda>right.
     bind (py_or left right) (\<lambda>both.
     bind (py_and both (PInt 0xFF)) (result_size sz))))))"

definition ROR :: "nat \<Rightarrow> pyval \<Rightarrow> pyval \<Rightarrow> string \<Rightarrow> py_error + pyval" where
  "ROR mem op1 op2 sz =
     bind (parse2 op1 op2 sz) (\<lambda>(op1, op2).
     bind (py_rshift op1 op2) (\<lambda>right.
     bind (py_sub (PInt 8) op2) (\<lambda>n.
     bind (py_lshift mem op1 n) (\<lambda>left.
     bind (py_or right left) (\<lambda>both.
     bind (py_and both (PInt 0xFF)) (result_size sz))))))"

definition SHR :: "pyval \<Rightarrow> pyval \<Rightarrow> string \<Rightarrow> py_error + pyval" where
  "SHR op1 op2 sz =
     bind (parse2 op1 op2 sz) (\<lambda>(op1, op2).
     bind (py_rshift op1 op2) (result_size sz))"

definition SHL :: "nat \<Rightarrow> pyval \<Rightarrow> pyval \<Rightarrow> string \<Rightarrow> py_error + pyval" where
  "SHL mem op1 op2 sz =
     bind (parse2 op1 op2 sz) (\<lambda>(op1, op2).
     bind (py_lshift mem op1 op2) (result_size sz))"

definition INC :: "pyval \<Rightarrow> string \<Rightarrow> py_error + pyval" where
  "INC op1 sz =
     bind (parse1 op1 sz) (\<lambda>t.
     bind (py_add t (PInt 1)) (result_size sz))"

definition DEC :: "pyval \<Rightarrow> string \<Rightarrow> py_error + pyval" where
  "DEC op1 sz =
     bind (parse1 op1 sz) (\<lambda>t.
     bind (py_sub t (PInt 1)) (result_size sz))"

definition NEG :: "pyval \<Rightarrow> string \<Rightarrow> py_error + pyval" where
  "NEG op1 sz =
     bind (parse1 op1 sz) (\<lambda>op1.
     bind (py_invert op1) (\<lambda>inv.
     bind (py_add inv (PInt 1)) (result_size sz)))"

definition NOT :: "pyval \<Rightarrow> string \<Rightarrow> py_error + pyval" where
  "NOT op1 sz =
     bind (parse1 op1 sz) (\<lambda>op1.
     bind (py_invert op1) (result_size sz))"

definition ADD :: "pyval \<Rightarrow> pyval \<Rightarrow> string \<Rightarrow> py_error + pyval" where
  "ADD op1 op2 sz =
     bind (parse2 op1 op2 sz) (\<lambda>(op1, op2).
     bind (py_add op1 op2) (result_size sz))"

definition SUB :: "pyval \<Rightarrow> pyval \<Rightarrow> string \<Rightarrow> py_error + pyval" where
  "SUB op1 op2 sz =
     bind (parse2 op1 op2 sz) (\<lambda>(op1, op2).
     bind (py_sub op1 op2) (result_size sz))"

subsection \<open>The vocabulary of the specification\<close>

text \<open>
  The specification speaks of five width tags, each with a code, a number of bits and a
  resolution rule. These definitions follow its words, not the source; the theorems
  below compare the two.
\<close>

datatype width_tag = LowByte | HighByte | Word | Dword | Qword

fun tag_code :: "width_tag \<Rightarrow> string" where
  "tag_code LowByte = ''l''"
| "tag_code HighByte = ''h''"
| "tag_code Word = ''w''"
| "tag_code Dword = ''d''"
| "tag_code Qword = ''q''"

definition tags :: "string list" where
  "tags = [''l'', ''h'', ''w'', ''d'', ''q'']"

fun bits :: "width_tag \<Rightarrow> nat" where
  "bits LowByte = 8"
| "bits HighByte = 8"
| "bits Word = 16"
| "bits Dword = 32"
| "bits Qword = 64"

fun resolve :: "int \<Rightarrow> width_tag \<Rightarrow> int" where
  "resolve v LowByte = and v 0xFF"
| "resolve v HighByte = drop_bit 8 (and v 0xFF00)"
| "resolve v Word = and v 0xFFFF"
| "resolve v Dword = and v 0xFFFFFFFF"
| "resolve v Qword = and v 0xFFFFFFFFFFFFFFFF"

text \<open>
  The three-step protocol of an operation: resolve each operand with its own tag, apply
  the raw operator, truncate with the first tag.
\<close>

definition three_step ::
  "(int \<Rightarrow> int \<Rightarrow> int) \<Rightarrow> width_tag \<Rightarrow> width_tag \<Rightarrow> int \<Rightarrow> int \<Rightarrow> int" where
  "three_step f t1 t2 a b = resolve (f (resolve a t1) (resolve b t2)) t1"

definition shift_right :: "int \<Rightarrow> int \<Rightarrow> int" where
  "shift_right a n = drop_bit (nat n) a"

definition shift_left :: "int \<Rightarrow> int \<Rightarrow> int" where
  "shift_left a n = push_bit (nat n) a"

text \<open>The rotations over the window of eight bits, as the specification writes them.\<close>

definition rol8 :: "int \<Rightarrow> int \<Rightarrow> int" where
  "rol8 n1 n2 = and (or (shift_left n1 n2) (shift_right n1 (8 - n2))) 0xFF"

definition ror8 :: "int \<Rightarrow> int \<Rightarrow> int" where
  "ror8 n1 n2 = and (or (shift_right n1 n2) (shift_left n1 (8 - n2))) 0xFF"

text \<open>
  Adding \<open>b\<close>, subtracting it again and resolving, every operand position having the
  tag \<open>t\<close>.
\<close>

definition add_sub_trip :: "int \<Rightarrow> int \<Rightarrow> width_tag \<Rightarrow> py_error + pyval" where
  "add_sub_trip a b t =
     bind (ADD (PInt a) (PInt b) (tag_code t @ tag_code t)) (\<lambda>s.
     bind (SUB s (PInt b) (tag_code t @ tag_code t)) (\<lambda>r.
     get_size r (tag_code t)))"

text \<open>A returned value that is an integer within the width of a tag.\<close>

fun in_range :: "width_tag \<Rightarrow> pyval \<Rightarrow> bool" where
  "in_range t (PInt n) = (0 \<le> n \<and> n < 2 ^ bits t)"
| "in_range t _ = False"

fun returns_in_range :: "width_tag \<Rightarrow> py_error + pyval \<Rightarrow> bool" where
  "returns_in_range t (Inr r) = in_range t r"
| "returns_in_range t (Inl e) = False"

text \<open>
  The catalogue of operations, applied to the same operands and specifier: the four
  unary operations, the six binary ones that do not shift to the left, \<^verbatim>\<open>SHL\<close>, and the
  two rotations.
\<close>

definition unary_ops :: "pyval \<Rightarrow> string \<Rightarrow> (py_error + pyval) list" where
  "unary_ops x sz = [INC x sz, DEC x sz, NEG x sz, NOT x sz]"

definition plain_binary_ops :: "pyval \<Rightarrow> pyval \<Rightarrow> string \<Rightarrow> (py_error + pyval) list" where
  "plain_binary_ops x y sz =
     [XOR x y sz, OR x y sz, AND x y sz, SHR x y sz, ADD x y sz, SUB x y sz]"

definition rotations ::
  "nat \<Rightarrow> pyval \<Rightarrow> pyval \<Rightarrow> string \<Rightarrow> (py_error + pyval) list" where
  "rotations mem x y sz = [ROL mem x y sz, ROR mem x y sz]"

definition catalogue ::
  "nat \<Rightarrow> pyval \<Rightarrow> pyval \<Rightarrow> string \<Rightarrow> (py_error + pyval) list" where
  "catalogue mem x y sz =
     plain_binary_ops x y sz @ SHL mem x y sz # rotations mem x y sz @ unary_ops x sz"

section \<open>Properties\<close>

subsection \<open>The examples of the module's docstring\<close>

text \<open>
  The three sessions that the docstring of the module shows, run on the model:
  \<^verbatim>\<open>hex(a.FORMAT(0xAABBCCDD, 'h'))\<close> is \<^verbatim>\<open>'0xcc'\<close>, \<^verbatim>\<open>hex(a.HIGHBYTE(0x22))\<close> is \<^verbatim>\<open>'0x2200'\<close>
  and \<^verbatim>\<open>hex(a.ADD(0xAABBCCDD, a.HIGHBYTE(0x22)))\<close>, with the default \<^verbatim>\<open>"dd"\<close>, is
  \<^verbatim>\<open>'0xaabbeedd'\<close>.
\<close>

lemma docstring_examples:
  "FORMAT (PInt 0xAABBCCDD) ''h'' = Inr (PInt 0xCC)"
  "HIGHBYTE mem (PInt 0x22) = Inr (PInt 0x2200)"
  "bind (HIGHBYTE mem (PInt 0x22)) (\<lambda>h. ADD (PInt 0xAABBCCDD) h ''dd'')
     = Inr (PInt 0xAABBEEDD)"
  by (simp_all add: FORMAT_def HIGHBYTE_def ADD_def parse2_def result_size_def
      py_getitem_def get_size_def bind_def drop_bit_eq_div shift_limit_def)

subsection \<open>Auxiliary facts\<close>

text \<open>The masks and the shift of the resolver, as arithmetic.\<close>

lemma low_mask_mod: "and (v::int) (2 ^ n - 1) = v mod 2 ^ n"
  using take_bit_eq_mask [of n v] by (simp add: take_bit_eq_mod mask_eq_exp_minus_1)

lemma resolve_arith:
  "resolve v LowByte = v mod 2 ^ 8"
  "resolve v HighByte = (v div 2 ^ 8) mod 2 ^ 8"
  "resolve v Word = v mod 2 ^ 16"
  "resolve v Dword = v mod 2 ^ 32"
  "resolve v Qword = v mod 2 ^ 64"
proof -
  show "resolve v LowByte = v mod 2 ^ 8"
    using low_mask_mod [of v 8] by simp
  show "resolve v Word = v mod 2 ^ 16"
    using low_mask_mod [of v 16] by simp
  show "resolve v Dword = v mod 2 ^ 32"
    using low_mask_mod [of v 32] by simp
  show "resolve v Qword = v mod 2 ^ 64"
    using low_mask_mod [of v 64] by simp
  have "drop_bit 8 (and v 0xFF00) = and (drop_bit 8 v) (drop_bit 8 0xFF00)"
    by (rule drop_bit_and)
  also have "drop_bit 8 (0xFF00::int) = 2 ^ 8 - 1"
    by (simp add: drop_bit_eq_div)
  also have "and (drop_bit 8 v) (2 ^ 8 - 1) = drop_bit 8 v mod 2 ^ 8"
    by (rule low_mask_mod)
  finally show "resolve v HighByte = (v div 2 ^ 8) mod 2 ^ 8"
    by (simp add: drop_bit_eq_div)
qed

lemma resolve_range: "0 \<le> resolve v t" "resolve v t < 2 ^ bits t"
  by (cases t; simp add: resolve_arith del: resolve.simps)+

lemma get_size_int: "get_size (PInt v) (tag_code t) = Inr (PInt (resolve v t))"
  by (cases t) (simp_all add: get_size_def bind_def)

lemma resolve_twice:
  "t \<noteq> HighByte \<Longrightarrow> resolve (resolve v t) t = resolve v t"
  "resolve (resolve v HighByte) HighByte = 0"
  by (cases t; simp add: resolve_arith del: resolve.simps)+

lemma highbyte_resolve: "resolve (push_bit 8 v) HighByte = resolve v LowByte"
  by (simp add: resolve_arith push_bit_eq_mult del: resolve.simps)

text \<open>The shift to the left on integers: when it returns and when it does not.\<close>

lemma py_lshift_returns:
  assumes "0 \<le> n" and "a = 0 \<or> n \<le> int (shift_limit mem)"
  shows "py_lshift mem (PInt a) (PInt n) = Inr (PInt (push_bit (nat n) a))"
  using assms by auto

lemma py_lshift_memory:
  assumes "a \<noteq> 0" and "int (shift_limit mem) < n"
  shows "py_lshift mem (PInt a) (PInt n) = Inl MemoryError"
  using assms by auto

lemma within_every_limit: "n \<le> 64 \<Longrightarrow> n \<le> int (shift_limit mem)"
  by (simp add: shift_limit_def)

lemma py_lshift_small:
  assumes "0 \<le> n" and "n \<le> 64"
  shows "py_lshift mem (PInt a) (PInt n) = Inr (PInt (push_bit (nat n) a))"
  using assms by (intro py_lshift_returns) (simp_all add: within_every_limit)

lemma py_lshift_complement:
  assumes "0 \<le> n" and "n \<le> 8"
  shows "py_lshift mem (PInt a) (PInt (8 - n)) = Inr (PInt (push_bit (nat (8 - n)) a))"
  using assms by (intro py_lshift_small) linarith+

text \<open>The normalisers and the final truncation on integers and recognised tags.\<close>

lemma getitem_first: "py_getitem (tag_code t @ s) 0 = Inr (tag_code t)"
  by (cases t) (simp_all add: py_getitem_def)

lemma getitem_second: "py_getitem (tag_code t1 @ tag_code t2 @ s) 1 = Inr (tag_code t2)"
  by (cases t1; cases t2) (simp_all add: py_getitem_def)

lemma result_size_int: "result_size (tag_code t @ s) (PInt v) = Inr (PInt (resolve v t))"
  by (simp add: result_size_def getitem_first bind_def get_size_int)

lemma parse1_int: "parse1 (PInt a) (tag_code t @ s) = Inr (PInt (resolve a t))"
  by (simp add: parse1_def getitem_first bind_def get_size_int)

lemma parse2_int:
  "parse2 (PInt a) (PInt b) (tag_code t1 @ tag_code t2 @ s)
     = Inr (PInt (resolve a t1), PInt (resolve b t2))"
  unfolding parse2_def getitem_first getitem_second
  by (simp add: bind_def get_size_int)

lemma add_sub_value:
  "add_sub_trip a b t
     = Inr (PInt (resolve (three_step (-) t t (three_step (+) t t a b) b) t))"
proof -
  have add: "ADD (PInt a) (PInt b) (tag_code t @ tag_code t)
      = Inr (PInt (three_step (+) t t a b))"
    using parse2_int [of a b t t "[]"] result_size_int [of t "tag_code t"]
    by (simp add: ADD_def bind_def three_step_def)
  have sub: "SUB (PInt c) (PInt b) (tag_code t @ tag_code t)
      = Inr (PInt (three_step (-) t t c b))" for c
    using parse2_int [of c b t t "[]"] result_size_int [of t "tag_code t"]
    by (simp add: SUB_def bind_def three_step_def)
  show ?thesis
    by (simp add: add_sub_trip_def add sub bind_def get_size_int)
qed

text \<open>Whatever the operands, a result returned under a recognised first tag is in range.\<close>

lemma bind_Inr: "(bind m f = Inr r) = (\<exists>x. m = Inr x \<and> f x = Inr r)"
  by (cases m) (simp_all add: bind_def)

lemma Inr_bind: "(Inr r = bind m f) = (\<exists>x. m = Inr x \<and> f x = Inr r)"
  by (cases m) (auto simp add: bind_def)

lemma get_size_str:
  "get_size (PStr s) t
     = (if s = [] then Inl ValueError
        else get_size (PInt (foldl (\<lambda>acc c. acc * 256 + of_char c) 0 s)) t)"
  by (simp add: get_size_def str_to_int_def bind_def)

lemma get_size_none: "get_size PNone (tag_code t) = Inl TypeError"
  by (cases t) (simp_all add: get_size_def bind_def)

lemma get_size_range:
  assumes "get_size x (tag_code t) = Inr r"
  shows "in_range t r"
proof (cases x)
  case (PInt v)
  with assms have "r = PInt (resolve v t)"
    by (simp add: get_size_int)
  then show ?thesis
    by (simp add: resolve_range del: resolve.simps)
next
  case (PStr s)
  with assms have "r = PInt (resolve (foldl (\<lambda>acc c. acc * 256 + of_char c) 0 s) t)"
    by (simp add: get_size_str get_size_int split: if_splits)
  then show ?thesis
    by (simp add: resolve_range del: resolve.simps)
next
  case PNone
  with assms show ?thesis
    by (simp add: get_size_none)
qed

lemma result_size_range:
  "result_size (tag_code t @ s) temp = Inr r \<Longrightarrow> in_range t r"
  by (simp add: result_size_def getitem_first bind_def get_size_range)

lemma catalogue_range:
  assumes "Inr r \<in> set (catalogue mem x y (tag_code t @ rest))"
  shows "in_range t r"
  using assms
  by (auto simp add: catalogue_def plain_binary_ops_def rotations_def unary_ops_def
      XOR_def OR_def AND_def ROL_def ROR_def SHR_def SHL_def INC_def DEC_def NEG_def NOT_def
      ADD_def SUB_def bind_Inr Inr_bind
      dest: result_size_range)

text \<open>On integer operands and recognised tags the operations do return.\<close>

lemma unary_total:
  "list_all (returns_in_range t) (unary_ops (PInt a) (tag_code t @ rest))"
  by (simp add: unary_ops_def INC_def DEC_def NEG_def NOT_def parse1_int result_size_int
      bind_def resolve_range del: resolve.simps)

lemma plain_binary_total:
  "list_all (returns_in_range t)
     (plain_binary_ops (PInt a) (PInt b) (tag_code t @ tag_code t2 @ rest))"
proof -
  have n: "\<not> resolve b t2 < 0"
    using resolve_range(1) [of b t2] by simp
  show ?thesis
    by (simp add: plain_binary_ops_def XOR_def OR_def AND_def SHR_def ADD_def SUB_def
        parse2_int result_size_int bind_def n resolve_range del: resolve.simps)
qed

lemma shl_int:
  assumes "resolve a t1 = 0 \<or> resolve b t2 \<le> int (shift_limit mem)"
  shows "SHL mem (PInt a) (PInt b) (tag_code t1 @ tag_code t2 @ rest)
     = Inr (PInt (three_step shift_left t1 t2 a b))"
proof -
  have "py_lshift mem (PInt (resolve a t1)) (PInt (resolve b t2))
      = Inr (PInt (push_bit (nat (resolve b t2)) (resolve a t1)))"
    using resolve_range(1) assms by (rule py_lshift_returns)
  then show ?thesis
    by (simp add: SHL_def parse2_int result_size_int bind_def three_step_def shift_left_def
        del: resolve.simps py_lshift.simps)
qed

lemma shl_memory:
  assumes "resolve a t1 \<noteq> 0" and "int (shift_limit mem) < resolve b t2"
  shows "SHL mem (PInt a) (PInt b) (tag_code t1 @ tag_code t2 @ rest) = Inl MemoryError"
proof -
  have "py_lshift mem (PInt (resolve a t1)) (PInt (resolve b t2)) = Inl MemoryError"
    using assms by (rule py_lshift_memory)
  then show ?thesis
    by (simp add: SHL_def parse2_int bind_def del: resolve.simps py_lshift.simps)
qed

lemma shl_all_ones:
  assumes "mem < 2 ^ 64 - 1"
  shows "SHL mem (PInt 1) (PInt 0xFFFFFFFFFFFFFFFF) ''qq'' = Inl MemoryError"
proof -
  have "int (shift_limit mem) < resolve 0xFFFFFFFFFFFFFFFF Qword"
    using assms by (simp add: resolve_arith shift_limit_def del: resolve.simps)
  moreover have "resolve 1 Qword \<noteq> 0"
    by (simp add: resolve_arith del: resolve.simps)
  ultimately show ?thesis
    using shl_memory [of 1 Qword mem "0xFFFFFFFFFFFFFFFF" Qword "[]"] by simp
qed

lemma shl_total:
  assumes "resolve a t1 = 0 \<or> resolve b t2 \<le> int (shift_limit mem)"
  shows "returns_in_range t1 (SHL mem (PInt a) (PInt b) (tag_code t1 @ tag_code t2 @ rest))"
  using shl_int [OF assms, of rest]
  by (simp add: three_step_def resolve_range del: resolve.simps)

lemma rotations_total:
  assumes "resolve b t2 \<le> 8"
  shows "list_all (returns_in_range t)
     (rotations mem (PInt a) (PInt b) (tag_code t @ tag_code t2 @ rest))"
proof -
  have n: "0 \<le> resolve b t2" "\<not> resolve b t2 < 0"
    using resolve_range(1) [of b t2] by simp_all
  show ?thesis
    using assms
    by (simp add: rotations_def ROL_def ROR_def py_lshift_small py_lshift_complement
        parse2_int result_size_int bind_def n resolve_range
        del: resolve.simps py_lshift.simps)
qed

text \<open>Tags that the resolver does not know, and specifiers taken apart.\<close>

lemma get_size_unrecognised: "t \<notin> set tags \<Longrightarrow> get_size (PInt v) t = Inr PNone"
  by (simp add: get_size_def tags_def bind_def)

lemma get_size_int_or_none:
  "get_size (PInt v) t = Inr PNone \<or> (\<exists>n. get_size (PInt v) t = Inr (PInt n))"
  by (simp add: get_size_def bind_def)

lemma parse1_cons: "parse1 x (c # rest) = get_size x [c]"
  by (simp add: parse1_def py_getitem_def bind_def)

lemma parse2_cons:
  "parse2 x y (c1 # c2 # rest)
     = bind (get_size x [c1]) (\<lambda>u. bind (get_size y [c2]) (\<lambda>v. Inr (u, v)))"
  by (simp add: parse2_def py_getitem_def bind_def)

subsection \<open>The width resolver\<close>

text \<open>
  C1. On an integer \<open>v\<close> (non-negative or not) the width resolver returns
  \<^verbatim>\<open>v & 0xFF\<close> for the tag \<^verbatim>\<open>l\<close>, \<^verbatim>\<open>(v & 0xFF00) >> 8\<close> for \<^verbatim>\<open>h\<close>, \<^verbatim>\<open>v & 0xFFFF\<close> for \<^verbatim>\<open>w\<close>,
  \<^verbatim>\<open>v & 0xFFFFFFFF\<close> for \<^verbatim>\<open>d\<close> and \<^verbatim>\<open>v & 0xFFFFFFFFFFFFFFFF\<close> for \<^verbatim>\<open>q\<close>, and \<^verbatim>\<open>FORMAT\<close>
  returns the same for a specifier that starts with the tag.
\<close>

theorem get_size_masks:
  "get_size (PInt v) ''l'' = Inr (PInt (and v 0xFF)) \<and>
   get_size (PInt v) ''h'' = Inr (PInt (drop_bit 8 (and v 0xFF00))) \<and>
   get_size (PInt v) ''w'' = Inr (PInt (and v 0xFFFF)) \<and>
   get_size (PInt v) ''d'' = Inr (PInt (and v 0xFFFFFFFF)) \<and>
   get_size (PInt v) ''q'' = Inr (PInt (and v 0xFFFFFFFFFFFFFFFF)) \<and>
   FORMAT (PInt v) (CHR ''l'' # rest) = Inr (PInt (and v 0xFF)) \<and>
   FORMAT (PInt v) (CHR ''h'' # rest) = Inr (PInt (drop_bit 8 (and v 0xFF00))) \<and>
   FORMAT (PInt v) (CHR ''w'' # rest) = Inr (PInt (and v 0xFFFF)) \<and>
   FORMAT (PInt v) (CHR ''d'' # rest) = Inr (PInt (and v 0xFFFFFFFF)) \<and>
   FORMAT (PInt v) (CHR ''q'' # rest) = Inr (PInt (and v 0xFFFFFFFFFFFFFFFF))"
  by (simp add: get_size_def FORMAT_def py_getitem_def bind_def)

text \<open>
  C4, as the specification states it: the resolver returns \<open>v mod 2 ^ bits w\<close> for every
  tag. For the tag \<^verbatim>\<open>h\<close> this is false: of \<^verbatim>\<open>0x1234\<close> the resolver returns the second byte
  \<^verbatim>\<open>0x12\<close>, while \<^verbatim>\<open>0x1234 mod 2^8\<close> is \<^verbatim>\<open>0x34\<close>.
\<close>

theorem resolve_high_not_mod:
  "get_size (PInt 0x1234) (tag_code HighByte) = Inr (PInt 0x12) \<and>
   get_size (PInt 0x1234) (tag_code HighByte) \<noteq> Inr (PInt (0x1234 mod 2 ^ bits HighByte))"
  using get_size_int [of "0x1234" HighByte]
  by (simp add: resolve_arith del: resolve.simps)

text \<open>
  C4, amended: for every integer \<open>v\<close> the resolver returns \<open>v mod 2 ^ bits w\<close> for the
  tags \<^verbatim>\<open>l\<close>, \<^verbatim>\<open>w\<close>, \<^verbatim>\<open>d\<close> and \<^verbatim>\<open>q\<close>, and \<open>(v div 2 ^ 8) mod 2 ^ 8\<close>, the byte of bits 8 to
  15, for the tag \<^verbatim>\<open>h\<close>.
\<close>

theorem resolve_is_mod:
  "get_size (PInt v) ''l'' = Inr (PInt (v mod 2 ^ bits LowByte)) \<and>
   get_size (PInt v) ''h'' = Inr (PInt ((v div 2 ^ 8) mod 2 ^ bits HighByte)) \<and>
   get_size (PInt v) ''w'' = Inr (PInt (v mod 2 ^ bits Word)) \<and>
   get_size (PInt v) ''d'' = Inr (PInt (v mod 2 ^ bits Dword)) \<and>
   get_size (PInt v) ''q'' = Inr (PInt (v mod 2 ^ bits Qword))"
  using get_size_int [of v LowByte] get_size_int [of v HighByte] get_size_int [of v Word]
    get_size_int [of v Dword] get_size_int [of v Qword]
  by (simp add: resolve_arith del: resolve.simps)

text \<open>
  C5, as the specification states it: resolving twice with the same tag is resolving
  once. For the tag \<^verbatim>\<open>h\<close> this is false: \<^verbatim>\<open>0x1234\<close> resolves to \<^verbatim>\<open>0x12\<close>, and \<^verbatim>\<open>0x12\<close>, which
  has no bits 8 to 15, resolves to 0.
\<close>

theorem resolve_high_not_idempotent:
  "get_size (PInt 0x1234) ''h'' = Inr (PInt 0x12) \<and>
   bind (get_size (PInt 0x1234) ''h'') (\<lambda>r. get_size r ''h'') = Inr (PInt 0) \<and>
   bind (get_size (PInt 0x1234) ''h'') (\<lambda>r. get_size r ''h'') \<noteq> get_size (PInt 0x1234) ''h''"
  using get_size_int [of "0x1234" HighByte] get_size_int [of "0x12" HighByte]
  by (simp add: bind_def resolve_arith del: resolve.simps)

text \<open>
  C5, amended: on every integer, resolution is idempotent for the tags \<^verbatim>\<open>l\<close>, \<^verbatim>\<open>w\<close>, \<^verbatim>\<open>d\<close>
  and \<^verbatim>\<open>q\<close>; for the tag \<^verbatim>\<open>h\<close> the second resolution returns 0.
\<close>

theorem resolve_idempotent:
  "bind (get_size (PInt v) ''l'') (\<lambda>r. get_size r ''l'') = get_size (PInt v) ''l'' \<and>
   bind (get_size (PInt v) ''w'') (\<lambda>r. get_size r ''w'') = get_size (PInt v) ''w'' \<and>
   bind (get_size (PInt v) ''d'') (\<lambda>r. get_size r ''d'') = get_size (PInt v) ''d'' \<and>
   bind (get_size (PInt v) ''q'') (\<lambda>r. get_size r ''q'') = get_size (PInt v) ''q'' \<and>
   bind (get_size (PInt v) ''h'') (\<lambda>r. get_size r ''h'') = Inr (PInt 0)"
proof -
  have twice: "bind (get_size (PInt v) (tag_code t)) (\<lambda>r. get_size r (tag_code t))
      = Inr (PInt (resolve (resolve v t) t))" for t
    by (simp add: get_size_int bind_def)
  show ?thesis
    using twice [of LowByte] twice [of Word] twice [of Dword] twice [of Qword]
      twice [of HighByte] get_size_int [of v LowByte] get_size_int [of v Word]
      get_size_int [of v Dword] get_size_int [of v Qword]
    by (simp add: resolve_twice del: resolve.simps)
qed

text \<open>
  C6. High-byte round trip: for a byte \<open>b\<close>, from 0 to 255, resolving \<^verbatim>\<open>HIGHBYTE(b)\<close> with
  the tag \<^verbatim>\<open>h\<close> gives \<open>b\<close> back.
\<close>

theorem highbyte_round_trip:
  assumes "0 \<le> b" and "b \<le> 255"
  shows "bind (HIGHBYTE mem (PInt b)) (\<lambda>e. get_size e ''h'') = Inr (PInt b)"
proof -
  have "resolve b LowByte = b"
    using assms by (simp add: resolve_arith del: resolve.simps)
  then show ?thesis
    using get_size_int [of "push_bit 8 b" HighByte]
    by (simp add: HIGHBYTE_def py_lshift_small bind_def highbyte_resolve
        del: resolve.simps py_lshift.simps)
qed

theorem highbyte_round_trip_witness:
  "(0::int) \<le> 0x22 \<and> (0x22::int) \<le> 255 \<and>
   HIGHBYTE (2 ^ 40) (PInt 0x22) = Inr (PInt 0x2200) \<and>
   bind (HIGHBYTE (2 ^ 40) (PInt 0x22)) (\<lambda>e. get_size e ''h'') = Inr (PInt 0x22)"
  using highbyte_round_trip [of "0x22" "2 ^ 40"] by (simp add: HIGHBYTE_def shift_limit_def)

text \<open>
  C10. \<^verbatim>\<open>HIGHBYTE\<close> masks nothing: \<^verbatim>\<open>HIGHBYTE(v)\<close> is \<^verbatim>\<open>v << 8\<close> for every integer \<open>v\<close>, and
  resolving it with the tag \<^verbatim>\<open>h\<close> gives \<^verbatim>\<open>v & 0xFF\<close>, which for \<open>v\<close> of 256 or more is not
  \<open>v\<close>: there the round trip fails.
\<close>

theorem highbyte_unmasked:
  "HIGHBYTE mem (PInt v) = Inr (PInt (push_bit 8 v)) \<and>
   bind (HIGHBYTE mem (PInt v)) (\<lambda>e. get_size e ''h'') = Inr (PInt (and v 0xFF)) \<and>
   (256 \<le> v \<longrightarrow> and v 0xFF \<noteq> v)"
proof -
  have "resolve v LowByte < 2 ^ bits LowByte"
    by (rule resolve_range)
  then have "and v 0xFF < 256"
    by simp
  then have "256 \<le> v \<longrightarrow> and v 0xFF \<noteq> v"
    by linarith
  moreover have "get_size (PInt (push_bit 8 v)) ''h'' = Inr (PInt (resolve v LowByte))"
    using get_size_int [of "push_bit 8 v" HighByte]
    by (simp add: highbyte_resolve del: resolve.simps)
  moreover have "py_lshift mem (PInt v) (PInt 8) = Inr (PInt (push_bit 8 v))"
    using py_lshift_small [of 8 mem v] by simp
  ultimately show ?thesis
    by (simp add: HIGHBYTE_def bind_def del: py_lshift.simps)
qed

theorem highbyte_unmasked_witness:
  "(256::int) \<le> 0x1FF \<and> HIGHBYTE (2 ^ 40) (PInt 0x1FF) = Inr (PInt 0x1FF00) \<and>
   bind (HIGHBYTE (2 ^ 40) (PInt 0x1FF)) (\<lambda>e. get_size e ''h'') = Inr (PInt 0xFF) \<and>
   and (0x1FF::int) 0xFF \<noteq> 0x1FF"
  using highbyte_unmasked [of "2 ^ 40" "0x1FF"] by auto

subsection \<open>The operations\<close>

text \<open>
  C2, as the specification states it: on every pair of non-negative operands and every
  pair of recognised tags, each of \<^verbatim>\<open>XOR\<close>, \<^verbatim>\<open>OR\<close>, \<^verbatim>\<open>AND\<close>, \<^verbatim>\<open>ADD\<close>, \<^verbatim>\<open>SUB\<close>, \<^verbatim>\<open>SHR\<close> and
  \<^verbatim>\<open>SHL\<close> returns what the three-step protocol gives. \<^verbatim>\<open>SHL\<close> does not:
  \<^verbatim>\<open>SHL(1, 0xFFFFFFFFFFFFFFFF, "qq")\<close> normalises its operands to themselves, and
  \<^verbatim>\<open>1 << 0xFFFFFFFFFFFFFFFF\<close> raises \<^verbatim>\<open>MemoryError\<close>, on every machine with room for a shift
  by less than that, here one with room for \<open>2 ^ 40\<close> bits.
\<close>

theorem shl_huge_count_counterexample:
  "SHL (2 ^ 40) (PInt 1) (PInt 0xFFFFFFFFFFFFFFFF) ''qq'' = Inl MemoryError \<and>
   SHL (2 ^ 40) (PInt 1) (PInt 0xFFFFFFFFFFFFFFFF) ''qq''
     \<noteq> Inr (PInt (three_step shift_left Qword Qword 1 0xFFFFFFFFFFFFFFFF))"
  using shl_all_ones [of "2 ^ 40"] by simp

text \<open>
  C2, amended: on all integer operands and every pair of recognised tags, each of
  \<^verbatim>\<open>XOR\<close>, \<^verbatim>\<open>OR\<close>, \<^verbatim>\<open>AND\<close>, \<^verbatim>\<open>ADD\<close>, \<^verbatim>\<open>SUB\<close> and \<^verbatim>\<open>SHR\<close> returns what the three-step protocol
  gives: operand 1 resolved with the first tag, operand 2 with the second, the raw
  operator applied, and the result truncated with the first tag alone, whatever the
  second tag is. \<^verbatim>\<open>SHL\<close> does so when the normalised operand 1 is 0 or the normalised
  count is within what the interpreter has room for, which a count up to 64 always is.
\<close>

theorem three_step_protocol:
  "XOR (PInt a) (PInt b) (tag_code t1 @ tag_code t2) = Inr (PInt (three_step xor t1 t2 a b)) \<and>
   OR (PInt a) (PInt b) (tag_code t1 @ tag_code t2) = Inr (PInt (three_step or t1 t2 a b)) \<and>
   AND (PInt a) (PInt b) (tag_code t1 @ tag_code t2) = Inr (PInt (three_step and t1 t2 a b)) \<and>
   ADD (PInt a) (PInt b) (tag_code t1 @ tag_code t2) = Inr (PInt (three_step (+) t1 t2 a b)) \<and>
   SUB (PInt a) (PInt b) (tag_code t1 @ tag_code t2) = Inr (PInt (three_step (-) t1 t2 a b)) \<and>
   SHR (PInt a) (PInt b) (tag_code t1 @ tag_code t2)
     = Inr (PInt (three_step shift_right t1 t2 a b)) \<and>
   (resolve a t1 = 0 \<or> resolve b t2 \<le> int (shift_limit mem) \<longrightarrow>
      SHL mem (PInt a) (PInt b) (tag_code t1 @ tag_code t2)
        = Inr (PInt (three_step shift_left t1 t2 a b))) \<and>
   (resolve b t2 \<le> 64 \<longrightarrow>
      SHL mem (PInt a) (PInt b) (tag_code t1 @ tag_code t2)
        = Inr (PInt (three_step shift_left t1 t2 a b)))"
proof -
  have p: "parse2 (PInt a) (PInt b) (tag_code t1 @ tag_code t2)
      = Inr (PInt (resolve a t1), PInt (resolve b t2))"
    using parse2_int [of a b t1 t2 "[]"] by simp
  have r: "result_size (tag_code t1 @ tag_code t2) (PInt v) = Inr (PInt (resolve v t1))" for v
    by (rule result_size_int)
  have n: "\<not> resolve b t2 < 0"
    using resolve_range(1) [of b t2] by simp
  have six: "XOR (PInt a) (PInt b) (tag_code t1 @ tag_code t2)
        = Inr (PInt (three_step xor t1 t2 a b)) \<and>
      OR (PInt a) (PInt b) (tag_code t1 @ tag_code t2) = Inr (PInt (three_step or t1 t2 a b)) \<and>
      AND (PInt a) (PInt b) (tag_code t1 @ tag_code t2)
        = Inr (PInt (three_step and t1 t2 a b)) \<and>
      ADD (PInt a) (PInt b) (tag_code t1 @ tag_code t2)
        = Inr (PInt (three_step (+) t1 t2 a b)) \<and>
      SUB (PInt a) (PInt b) (tag_code t1 @ tag_code t2)
        = Inr (PInt (three_step (-) t1 t2 a b)) \<and>
      SHR (PInt a) (PInt b) (tag_code t1 @ tag_code t2)
        = Inr (PInt (three_step shift_right t1 t2 a b))"
    by (simp add: XOR_def OR_def AND_def ADD_def SUB_def SHR_def p r n bind_def
        three_step_def shift_right_def)
  have shl: "SHL mem (PInt a) (PInt b) (tag_code t1 @ tag_code t2)
      = Inr (PInt (three_step shift_left t1 t2 a b))"
    if "resolve a t1 = 0 \<or> resolve b t2 \<le> int (shift_limit mem)"
    using shl_int [OF that, of "[]"] by simp
  have small: "resolve a t1 = 0 \<or> resolve b t2 \<le> int (shift_limit mem)"
    if "resolve b t2 \<le> 64"
    using that by (simp add: within_every_limit)
  show ?thesis
    using six shl small by blast
qed

theorem three_step_protocol_witness:
  "resolve 4 LowByte \<le> 64 \<and>
   resolve 4 LowByte \<le> int (shift_limit (2 ^ 40)) \<and>
   SHL (2 ^ 40) (PInt 0xFFFF) (PInt 4) ''wl'' = Inr (PInt 0xFFF0) \<and>
   XOR (PInt 0xFF) (PInt 0x0F) ''ll'' = Inr (PInt 0xF0)"
proof -
  have c: "resolve 4 LowByte = 4" "resolve 0xFFFF Word = 0xFFFF"
    "resolve 0xFFFF0 Word = 0xFFF0" "resolve 0xFF LowByte = 0xFF" "resolve 0x0F LowByte = 0x0F"
    "resolve 0xF0 LowByte = 0xF0"
    by (simp_all add: resolve_arith del: resolve.simps)
  have x: "xor (0xFF::int) 0x0F = 0xF0"
    by simp
  show ?thesis
    using three_step_protocol [of "0xFFFF" 4 Word LowByte "2 ^ 40"]
      three_step_protocol [of "0xFF" "0x0F" LowByte LowByte "2 ^ 40"]
    by (simp add: c x three_step_def shift_left_def shift_limit_def del: resolve.simps)
qed

text \<open>
  C8. On integer operands and a specifier of two recognised tags, when the normalised
  rotate amount \<open>n2\<close> is at most 8 (it is never negative), \<^verbatim>\<open>ROL\<close> returns
  \<^verbatim>\<open>((n1 << n2) | (n1 >> (8 - n2))) & 0xFF\<close> and \<^verbatim>\<open>ROR\<close> returns
  \<^verbatim>\<open>((n1 >> n2) | (n1 << (8 - n2))) & 0xFF\<close> of the normalised operands, truncated with the
  first tag: the window is eight bits for every tag.
\<close>

theorem rotate_window:
  assumes "resolve b t2 \<le> 8"
  shows "ROL mem (PInt a) (PInt b) (tag_code t1 @ tag_code t2)
           = Inr (PInt (resolve (rol8 (resolve a t1) (resolve b t2)) t1)) \<and>
         ROR mem (PInt a) (PInt b) (tag_code t1 @ tag_code t2)
           = Inr (PInt (resolve (ror8 (resolve a t1) (resolve b t2)) t1))"
proof -
  have p: "parse2 (PInt a) (PInt b) (tag_code t1 @ tag_code t2)
      = Inr (PInt (resolve a t1), PInt (resolve b t2))"
    using parse2_int [of a b t1 t2 "[]"] by simp
  have r: "result_size (tag_code t1 @ tag_code t2) (PInt v) = Inr (PInt (resolve v t1))" for v
    by (rule result_size_int)
  have n: "0 \<le> resolve b t2" "\<not> resolve b t2 < 0"
    using resolve_range(1) [of b t2] by simp_all
  show ?thesis
    using assms
    by (simp add: ROL_def ROR_def p r n py_lshift_small py_lshift_complement bind_def
        rol8_def ror8_def shift_right_def shift_left_def del: py_lshift.simps)
qed

theorem rotate_window_witness:
  "resolve 4 Dword \<le> 8 \<and>
   ROL (2 ^ 40) (PInt 0x12345678) (PInt 4) ''dd'' = Inr (PInt 0xE7) \<and>
   ROR (2 ^ 40) (PInt 0x12345678) (PInt 4) ''dd'' = Inr (PInt 0xE7)"
proof -
  have h: "resolve 4 Dword \<le> 8"
    by (simp add: resolve_arith del: resolve.simps)
  have a: "resolve 0x12345678 Dword = 0x12345678"
    by (simp add: resolve_arith del: resolve.simps)
  have b: "resolve 4 Dword = 4"
    by (simp add: resolve_arith del: resolve.simps)
  have c: "rol8 0x12345678 4 = 0xE7" "ror8 0x12345678 4 = 0xE7"
    by (simp_all add: rol8_def ror8_def shift_left_def shift_right_def push_bit_eq_mult
        drop_bit_eq_div)
  have d: "resolve 0xE7 Dword = 0xE7"
    by (simp add: resolve_arith del: resolve.simps)
  show ?thesis
    using h rotate_window [OF h, of "2 ^ 40" "0x12345678" Dword] by (simp add: a b c d del: resolve.simps)
qed

text \<open>
  C7, as the specification states it: for every tag \<open>w\<close>, used at both positions,
  subtracting \<open>b\<close> from the sum of \<open>a\<close> and \<open>b\<close> and resolving gives the resolved \<open>a\<close>. For
  the tag \<^verbatim>\<open>h\<close> this is false. With \<^verbatim>\<open>a = 0x100\<close> and \<^verbatim>\<open>b = 0\<close>: the operands normalise to 1
  and 0, their sum 1 has no bits 8 to 15 and is truncated to 0, and from there on
  everything is 0, while \<^verbatim>\<open>a\<close> resolves to 1.
\<close>

theorem add_sub_high_counterexample:
  "ADD (PInt 0x100) (PInt 0) ''hh'' = Inr (PInt 0) \<and>
   SUB (PInt 0) (PInt 0) ''hh'' = Inr (PInt 0) \<and>
   get_size (PInt 0) ''h'' = Inr (PInt 0) \<and>
   get_size (PInt 0x100) ''h'' = Inr (PInt 1) \<and>
   add_sub_trip 0x100 0 HighByte \<noteq> get_size (PInt 0x100) (tag_code HighByte)"
proof -
  have g: "get_size (PInt 0) ''h'' = Inr (PInt 0)" "get_size (PInt 1) ''h'' = Inr (PInt 0)"
    "get_size (PInt 0x100) ''h'' = Inr (PInt 1)"
    using get_size_int [of 0 HighByte] get_size_int [of 1 HighByte]
      get_size_int [of "0x100" HighByte]
    by (simp_all add: resolve_arith del: resolve.simps)
  have a: "ADD (PInt 0x100) (PInt 0) ''hh'' = Inr (PInt 0)"
    by (simp add: ADD_def parse2_def result_size_def py_getitem_def g bind_def)
  have s: "SUB (PInt 0) (PInt 0) ''hh'' = Inr (PInt 0)"
    by (simp add: SUB_def parse2_def result_size_def py_getitem_def g bind_def)
  show ?thesis
    by (simp add: add_sub_trip_def a s g bind_def)
qed

text \<open>
  C7, amended: for all integers \<open>a\<close> and \<open>b\<close> and each of the tags \<^verbatim>\<open>l\<close>, \<^verbatim>\<open>w\<close>, \<^verbatim>\<open>d\<close> and
  \<^verbatim>\<open>q\<close>, used at both positions, \<^verbatim>\<open>SUB\<close> undoes \<^verbatim>\<open>ADD\<close> modulo the width; for the tag \<^verbatim>\<open>h\<close>
  the left side is 0 whatever \<open>a\<close> and \<open>b\<close> are.
\<close>

theorem add_sub_inverse:
  "add_sub_trip a b LowByte = get_size (PInt a) ''l'' \<and>
   add_sub_trip a b Word = get_size (PInt a) ''w'' \<and>
   add_sub_trip a b Dword = get_size (PInt a) ''d'' \<and>
   add_sub_trip a b Qword = get_size (PInt a) ''q'' \<and>
   add_sub_trip a b HighByte = Inr (PInt 0)"
proof -
  have low: "resolve (three_step (-) t t (three_step (+) t t a b) b) t = resolve a t"
    if "t \<noteq> HighByte" for t
    using that by (cases t; simp add: three_step_def resolve_arith mod_simps del: resolve.simps)
  have high: "resolve (three_step (-) HighByte HighByte c b) HighByte = 0" for c
    by (simp add: three_step_def resolve_twice del: resolve.simps)
  show ?thesis
    using get_size_int [of a LowByte] get_size_int [of a Word] get_size_int [of a Dword]
      get_size_int [of a Qword]
    by (simp add: add_sub_value low high del: resolve.simps)
qed

text \<open>
  C9. Range invariant. Whatever the operands are, when the specifier starts with a
  recognised tag every result that an operation of the catalogue returns is an integer
  from 0 up to, and not including, \<open>2 ^ bits t\<close>: \<open>2 ^ 8\<close> for \<^verbatim>\<open>l\<close> and \<^verbatim>\<open>h\<close>, \<open>2 ^ 16\<close> for
  \<^verbatim>\<open>w\<close>, \<open>2 ^ 32\<close> for \<^verbatim>\<open>d\<close>, \<open>2 ^ 64\<close> for \<^verbatim>\<open>q\<close>. And results are returned: on integer
  operands the unary operations return one for every recognised first tag, the binary
  ones that do not shift to the left for every pair of recognised tags, \<^verbatim>\<open>SHL\<close> when
  moreover its normalised operand is 0 or its normalised count within what the
  interpreter has room for, the rotations when the normalised count is at most 8. That
  covers \<^verbatim>\<open>DEC\<close>, \<^verbatim>\<open>SUB\<close>, \<^verbatim>\<open>NEG\<close> and \<^verbatim>\<open>NOT\<close>, whose intermediate value is negative.
\<close>

theorem range_invariant:
  "(Inr r \<in> set (catalogue mem x y (tag_code t @ rest)) \<longrightarrow> in_range t r) \<and>
   list_all (returns_in_range t) (unary_ops (PInt a) (tag_code t @ rest)) \<and>
   list_all (returns_in_range t)
     (plain_binary_ops (PInt a) (PInt b) (tag_code t @ tag_code t2 @ more)) \<and>
   (resolve a t = 0 \<or> resolve b t2 \<le> int (shift_limit mem) \<longrightarrow>
      returns_in_range t (SHL mem (PInt a) (PInt b) (tag_code t @ tag_code t2 @ more))) \<and>
   (resolve b t2 \<le> 8 \<longrightarrow>
      list_all (returns_in_range t)
        (rotations mem (PInt a) (PInt b) (tag_code t @ tag_code t2 @ more)))"
  using catalogue_range [of r mem x y t rest] unary_total [of t a rest]
    plain_binary_total [of t a b t2 more] shl_total [of a t b t2 mem more]
    rotations_total [of b t2 t mem a more]
  by blast

theorem range_invariant_witness:
  "Inr (PInt 0xFFFFFFFF) \<in> set (catalogue (2 ^ 40) (PInt 1) (PInt 2) ''dd'') \<and>
   in_range Dword (PInt 0xFFFFFFFF) \<and>
   NEG (PInt 1) ''dd'' = Inr (PInt 0xFFFFFFFF) \<and>
   SUB (PInt 1) (PInt 2) ''dd'' = Inr (PInt 0xFFFFFFFF) \<and>
   resolve 2 Dword \<le> int (shift_limit (2 ^ 40)) \<and>
   returns_in_range Dword (SHL (2 ^ 40) (PInt 1) (PInt 2) ''dd'') \<and>
   resolve 2 Dword \<le> 8 \<and>
   list_all (returns_in_range Dword) (rotations (2 ^ 40) (PInt 1) (PInt 2) ''dd'')"
proof -
  have neg: "NEG (PInt 1) ''dd'' = Inr (PInt 0xFFFFFFFF)"
    by (simp add: NEG_def parse1_def result_size_def py_getitem_def get_size_def bind_def)
  have sub: "SUB (PInt 1) (PInt 2) ''dd'' = Inr (PInt 0xFFFFFFFF)"
    by (simp add: SUB_def parse2_def result_size_def py_getitem_def get_size_def bind_def)
  have mem: "Inr (PInt 0xFFFFFFFF) \<in> set (catalogue (2 ^ 40) (PInt 1) (PInt 2) ''dd'')"
    by (simp add: catalogue_def unary_ops_def neg)
  have cnt: "resolve 2 Dword \<le> 8" "resolve 2 Dword \<le> int (shift_limit (2 ^ 40))"
    by (simp_all add: shift_limit_def)
  show ?thesis
    using range_invariant [of "PInt 0xFFFFFFFF" "2 ^ 40" "PInt 1" "PInt 2" Dword "''d''" 1 2
        Dword "[]"] mem cnt neg sub
    by simp
qed

subsection \<open>Failures\<close>

text \<open>
  C3, as the specification states it: no operation raises, and with a tag outside
  \<^verbatim>\<open>l\<close>, \<^verbatim>\<open>h\<close>, \<^verbatim>\<open>w\<close>, \<^verbatim>\<open>d\<close>, \<^verbatim>\<open>q\<close> an operation returns the unmasked arithmetic result. It
  does not: \<^verbatim>\<open>_get_size\<close> falls off its end and returns \<^verbatim>\<open>None\<close>, and the arithmetic on
  \<^verbatim>\<open>None\<close> raises \<^verbatim>\<open>TypeError\<close>. \<^verbatim>\<open>XOR(0xFF, 0x0F, "zz")\<close> raises, it does not return
  \<^verbatim>\<open>0xFF ^ 0x0F\<close>.
\<close>

theorem unrecognised_tag_counterexample:
  "XOR (PInt 0xFF) (PInt 0x0F) ''zz'' = Inl TypeError \<and>
   XOR (PInt 0xFF) (PInt 0x0F) ''zz'' \<noteq> Inr (PInt (xor 0xFF 0x0F))"
  by (simp add: XOR_def parse2_cons get_size_def bind_def)

text \<open>
  C3, amended: when the first tag of the specifier is outside \<^verbatim>\<open>l\<close>, \<^verbatim>\<open>h\<close>, \<^verbatim>\<open>w\<close>, \<^verbatim>\<open>d\<close>,
  \<^verbatim>\<open>q\<close>, the width resolver masks nothing and returns \<^verbatim>\<open>None\<close>; \<^verbatim>\<open>FORMAT\<close> returns that
  \<^verbatim>\<open>None\<close>, and \<^verbatim>\<open>INC\<close>, \<^verbatim>\<open>DEC\<close>, \<^verbatim>\<open>NEG\<close> and \<^verbatim>\<open>NOT\<close> on an integer operand raise
  \<^verbatim>\<open>TypeError\<close>. When the first or the second tag is outside the five, each of the nine
  binary operations on integer operands raises \<^verbatim>\<open>TypeError\<close>. No operation returns an
  unmasked result.
\<close>

theorem unrecognised_tag:
  "([c1] \<notin> set tags \<longrightarrow>
      get_size (PInt a) [c1] = Inr PNone \<and>
      FORMAT (PInt a) (c1 # rest) = Inr PNone \<and>
      list_all (\<lambda>res. res = Inl TypeError) (unary_ops (PInt a) (c1 # rest))) \<and>
   ([c1] \<notin> set tags \<or> [c2] \<notin> set tags \<longrightarrow>
      list_all (\<lambda>res. res = Inl TypeError)
        (plain_binary_ops (PInt a) (PInt b) (c1 # c2 # more) @
         SHL mem (PInt a) (PInt b) (c1 # c2 # more) #
         rotations mem (PInt a) (PInt b) (c1 # c2 # more)))"
proof -
  have unary: "list_all (\<lambda>res. res = Inl TypeError) (unary_ops (PInt a) (c1 # rest))"
    if "[c1] \<notin> set tags"
    using get_size_unrecognised [OF that, of a]
    by (simp add: unary_ops_def INC_def DEC_def NEG_def NOT_def parse1_cons bind_def)
  have fmt: "FORMAT (PInt a) (c1 # rest) = Inr PNone" if "[c1] \<notin> set tags"
    using get_size_unrecognised [OF that, of a]
    by (simp add: FORMAT_def py_getitem_def bind_def)
  have first: "list_all (\<lambda>res. res = Inl TypeError)
      (plain_binary_ops (PInt a) (PInt b) (c1 # c2 # more) @
       SHL mem (PInt a) (PInt b) (c1 # c2 # more) #
       rotations mem (PInt a) (PInt b) (c1 # c2 # more))"
    if "[c1] \<notin> set tags"
    using get_size_unrecognised [OF that, of a] get_size_int_or_none [of b "[c2]"]
    by (auto simp add: plain_binary_ops_def rotations_def XOR_def OR_def AND_def SHR_def
        SHL_def ADD_def SUB_def ROL_def ROR_def parse2_cons bind_def)
  have second: "list_all (\<lambda>res. res = Inl TypeError)
      (plain_binary_ops (PInt a) (PInt b) (c1 # c2 # more) @
       SHL mem (PInt a) (PInt b) (c1 # c2 # more) #
       rotations mem (PInt a) (PInt b) (c1 # c2 # more))"
    if "[c2] \<notin> set tags"
    using get_size_unrecognised [OF that, of b] get_size_int_or_none [of a "[c1]"]
    by (auto simp add: plain_binary_ops_def rotations_def XOR_def OR_def AND_def SHR_def
        SHL_def ADD_def SUB_def ROL_def ROR_def parse2_cons bind_def)
  show ?thesis
    using unary fmt first second get_size_unrecognised [of "[c1]" a] by blast
qed

theorem unrecognised_tag_witness:
  "[CHR ''x''] \<notin> set tags \<and>
   FORMAT (PInt 5) ''xd'' = Inr PNone \<and>
   INC (PInt 5) ''xd'' = Inl TypeError \<and>
   ADD (PInt 5) (PInt 3) ''xd'' = Inl TypeError \<and>
   SHL (2 ^ 40) (PInt 5) (PInt 3) ''xd'' = Inl TypeError \<and>
   ROL (2 ^ 40) (PInt 5) (PInt 3) ''xd'' = Inl TypeError"
proof -
  have h: "[CHR ''x''] \<notin> set tags"
    by (simp add: tags_def)
  show ?thesis
    using h unrecognised_tag [of "CHR ''x''" 5 "''d''" "CHR ''d''" 3 "[]" "2 ^ 40"]
    by (simp add: unary_ops_def plain_binary_ops_def rotations_def)
qed

text \<open>
  Two more ways in which an operation raises, for the record: a rotation whose
  normalised count exceeds 8 shifts by the negative \<^verbatim>\<open>8 - op2\<close>, unless it is \<^verbatim>\<open>ROL\<close> and has
  run out of memory before, and a specifier shorter than the operation reads has no
  \<^verbatim>\<open>size[0]\<close> or \<^verbatim>\<open>size[1]\<close>.
\<close>

lemma rotate_negative_count:
  assumes "8 < resolve b t2"
  shows "ROR mem (PInt a) (PInt b) (tag_code t1 @ tag_code t2) = Inl ValueError"
    and "resolve a t1 = 0 \<or> resolve b t2 \<le> int (shift_limit mem) \<Longrightarrow>
      ROL mem (PInt a) (PInt b) (tag_code t1 @ tag_code t2) = Inl ValueError"
    and "resolve a t1 \<noteq> 0 \<Longrightarrow> int (shift_limit mem) < resolve b t2 \<Longrightarrow>
      ROL mem (PInt a) (PInt b) (tag_code t1 @ tag_code t2) = Inl MemoryError"
proof -
  have p: "parse2 (PInt a) (PInt b) (tag_code t1 @ tag_code t2)
      = Inr (PInt (resolve a t1), PInt (resolve b t2))"
    using parse2_int [of a b t1 t2 "[]"] by simp
  have n: "\<not> resolve b t2 < 0"
    using resolve_range(1) [of b t2] by simp
  show "ROR mem (PInt a) (PInt b) (tag_code t1 @ tag_code t2) = Inl ValueError"
    using assms by (simp add: ROR_def p n bind_def)
  show "ROL mem (PInt a) (PInt b) (tag_code t1 @ tag_code t2) = Inl ValueError"
    if "resolve a t1 = 0 \<or> resolve b t2 \<le> int (shift_limit mem)"
    using assms py_lshift_returns [OF resolve_range(1) that]
    by (simp add: ROL_def p n bind_def del: py_lshift.simps)
  show "ROL mem (PInt a) (PInt b) (tag_code t1 @ tag_code t2) = Inl MemoryError"
    if "resolve a t1 \<noteq> 0" and "int (shift_limit mem) < resolve b t2"
    using py_lshift_memory [OF that]
    by (simp add: ROL_def p bind_def del: py_lshift.simps)
qed

lemma short_specifier:
  "XOR x y [c] = Inl IndexError" "INC x [] = Inl IndexError" "FORMAT x [] = Inl IndexError"
  by (simp_all add: XOR_def INC_def FORMAT_def parse1_def parse2_def py_getitem_def bind_def)

end
